theory Spec2Isabelle
  imports Main
begin

section \<open>TypeScript declarations as data\<close>

text \<open>
  The repository is a package of TypeScript declaration files, with its manifest and
  one script. A declaration has no body to run, so the declarations are modelled as the
  data they are: a type expression is a value of \<open>ts_type\<close>, a declaration a value of
  \<open>decl\<close>, and a declaration file the list of its top-level declarations, in the order
  of the source. Doc comments are not part of the model. The functions of the script are
  embedded as functions.
\<close>

datatype param_kind = Required | Optional | RestArgs

datatype ts_type =
    TString | TNumber | TBoolean | TNull | TUndefined | TVoid | TAny
  | TLit string
  | TFalse
  | TName string "ts_type list"
  | TTypeof string
  | TArray ts_type
  | TUnion "ts_type list"
  | TTuple "(string \<times> param_kind \<times> ts_type) list"
  | TObject "(string \<times> param_kind \<times> ts_type) list"
  | TIndexed string ts_type ts_type
  | TFunction "(string \<times> param_kind \<times> ts_type) list" ts_type
  | TTemplate "ts_type list"

type_synonym params = "(string \<times> param_kind \<times> ts_type) list"

text \<open>A type parameter: its name, its \<open>extends\<close> constraint and its default.\<close>

datatype tparam = TParam string "ts_type option" "ts_type option"

datatype member =
    Property string param_kind ts_type
  | Method string params ts_type
  | CallSignature params ts_type

text \<open>
  A namespace is named by its path: \<open>declare namespace mw.loader.store\<close> is
  \<open>Namespace [''mw'', ''loader'', ''store'']\<close>.
\<close>

datatype decl =
    Interface string "string list" "member list"
  | TypeAlias string ts_type
  | Const string ts_type
  | Function string "tparam list" params ts_type
  | Namespace "string list" "decl list"

subsection \<open>Looking declarations up\<close>

text \<open>
  TypeScript merges the namespaces of one name: the members of \<open>mw.loader\<close> are the
  members of every \<open>namespace loader\<close> inside a \<open>namespace mw\<close> and of every
  \<open>namespace mw.loader\<close>, in all the files given; and \<open>namespace mw.loader.store\<close>
  gives \<open>mw\<close> the member \<open>namespace loader.store\<close>.
\<close>

fun ns_members :: "nat \<Rightarrow> string list \<Rightarrow> decl list \<Rightarrow> decl list" where
  "ns_members 0 p ds = []"
| "ns_members (Suc k) p ds =
     concat (map (\<lambda>d. case d of
         Namespace q ms \<Rightarrow>
           (if q = p then ms
            else if length q < length p \<and> take (length q) p = q
              then ns_members k (drop (length q) p) ms
            else if length p < length q \<and> take (length p) q = p
              then [Namespace (drop (length p) q) ms]
            else [])
       | _ \<Rightarrow> []) ds)"

definition namespace_members :: "string list \<Rightarrow> decl list \<Rightarrow> decl list" where
  "namespace_members p ds = ns_members (Suc (length p)) p ds"

fun type_aliases :: "string \<Rightarrow> decl list \<Rightarrow> ts_type list" where
  "type_aliases n [] = []"
| "type_aliases n (TypeAlias m t # ds) = (if m = n then t # type_aliases n ds else type_aliases n ds)"
| "type_aliases n (_ # ds) = type_aliases n ds"

fun interface_members :: "string \<Rightarrow> decl list \<Rightarrow> member list" where
  "interface_members n [] = []"
| "interface_members n (Interface m ext ms # ds) =
     (if m = n then ms @ interface_members n ds else interface_members n ds)"
| "interface_members n (_ # ds) = interface_members n ds"

fun property_types :: "string \<Rightarrow> member list \<Rightarrow> ts_type list" where
  "property_types n [] = []"
| "property_types n (Property m k t # ms) =
     (if m = n then t # property_types n ms else property_types n ms)"
| "property_types n (_ # ms) = property_types n ms"

fun const_types :: "string \<Rightarrow> decl list \<Rightarrow> ts_type list" where
  "const_types n [] = []"
| "const_types n (Const m t # ds) = (if m = n then t # const_types n ds else const_types n ds)"
| "const_types n (_ # ds) = const_types n ds"

text \<open>The signatures of a function name: one per overload, parameters and result.\<close>

fun signatures :: "string \<Rightarrow> decl list \<Rightarrow> (params \<times> ts_type) list" where
  "signatures n [] = []"
| "signatures n (Function m tps ps r # ds) =
     (if m = n then (ps, r) # signatures n ds else signatures n ds)"
| "signatures n (_ # ds) = signatures n ds"

fun function_names :: "decl list \<Rightarrow> string list" where
  "function_names [] = []"
| "function_names (Function m tps ps r # ds) = m # function_names ds"
| "function_names (_ # ds) = function_names ds"

fun const_names :: "decl list \<Rightarrow> string list" where
  "const_names [] = []"
| "const_names (Const m t # ds) = m # const_names ds"
| "const_names (_ # ds) = const_names ds"

text \<open>The string literals a type admits: those of a literal type or of a union of them.\<close>

fun literal_members :: "ts_type \<Rightarrow> string list" where
  "literal_members (TLit s) = [s]"
| "literal_members (TUnion ts) = concat (map literal_members ts)"
| "literal_members _ = []"

section \<open>The module loader: \<open>mediawiki/loader.d.ts\<close>\<close>

definition ModuleState :: ts_type where
  "ModuleState = TUnion [TLit ''error'', TLit ''executing'', TLit ''loaded'', TLit ''loading'',
     TLit ''missing'', TLit ''ready'', TLit ''registered'']"

definition ModuleScript :: ts_type where
  "ModuleScript = TUnion
     [TArray TString,
      TFunction [(''$'', Required, TName ''JQuery'' []), (''jQuery'', Required, TName ''JQuery'' []),
                 (''require'', Required, TName ''ModuleRequire'' []),
                 (''module'', Required, TName ''Module'' [])] TVoid,
      TObject [(''files'', Required, TIndexed ''key'' TString TAny), (''main'', Required, TString)],
      TString]"

definition ModuleDeclarator :: decl where
  "ModuleDeclarator = Interface ''ModuleDeclarator'' []
     [CallSignature [] (TTuple
        [(''module'', Required, TString),
         (''script'', Optional, TUnion [TName ''ModuleScript'' [], TNull]),
         (''style'', Optional, TUnion [TName ''ModuleStyle'' [], TNull]),
         (''messages'', Optional, TUnion [TName ''ModuleMessages'' [], TNull]),
         (''templates'', Optional, TUnion [TName ''ModuleTemplates'' [], TNull]),
         (''deprecationWarning'', Optional, TUnion [TString, TNull])])]"

definition ModuleRegistryEntry :: decl where
  "ModuleRegistryEntry = Interface ''ModuleRegistryEntry'' []
     [Property ''declarator'' Optional (TUnion [TName ''ModuleDeclarator'' [], TNull]),
      Property ''dependencies'' Required (TArray TString),
      Property ''deprecationWarning'' Optional (TUnion [TString, TNull]),
      Property ''group'' Required (TUnion [TNumber, TNull]),
      Property ''messages'' Optional (TUnion [TName ''ModuleMessages'' [], TNull]),
      Property ''module'' Required (TName ''Module'' []),
      Property ''packageExports'' Required TAny,
      Property ''skip'' Required (TUnion [TString, TNull]),
      Property ''source'' Required TString,
      Property ''state'' Required (TUnion [TLit ''error'', TLit ''loaded'', TLit ''missing'',
         TLit ''registered'', TLit ''ready'']),
      Property ''version'' Required TString]"

definition register_entry :: ts_type where
  "register_entry = TTuple
     [(''module'', Required, TString),
      (''version'', Optional, TUnion [TString, TNumber]),
      (''dependencies'', Optional, TName ''Array'' [TUnion [TString, TNumber]]),
      (''group'', Optional, TUnion [TString, TNull]),
      (''source'', Optional, TString),
      (''skip'', Optional, TUnion [TString, TNull])]"

definition error_callback :: ts_type where
  "error_callback =
     TFunction [(''error'', Required, TName ''Error'' []), (''args'', RestArgs, TArray TAny)] TVoid"

definition loader_d_ts :: "decl list" where
  "loader_d_ts = [Namespace [''mw''] [Namespace [''loader'']
     [Interface ''Module'' [] [Property ''exports'' Required TAny],
      TypeAlias ''ModuleKey'' (TTemplate [TString, TLit ''@'', TString]),
      TypeAlias ''ModuleState'' ModuleState,
      TypeAlias ''ModuleMessages'' (TName ''Record'' [TString, TString]),
      TypeAlias ''ModuleStyle'' (TName ''Record'' [TString, TAny]),
      TypeAlias ''ModuleTemplates'' (TName ''Record'' [TString, TAny]),
      ModuleDeclarator,
      Interface ''ModuleRequire'' [] [CallSignature [(''moduleName'', Required, TString)] TAny],
      TypeAlias ''ModuleScript'' ModuleScript,
      ModuleRegistryEntry,
      Function ''addStyleTag'' []
        [(''text'', Required, TString), (''nextNode'', Optional, TUnion [TName ''Node'' [], TNull])]
        (TName ''HTMLStyleElement'' []),
      Function ''getState'' [] [(''module'', Required, TString)]
        (TUnion [TName ''ModuleState'' [], TNull]),
      Function ''impl'' [] [(''declarator'', Required, TName ''ModuleDeclarator'' [])] TVoid,
      Function ''implement'' []
        [(''module'', Required, TString),
         (''script'', Optional, TName ''ModuleScript'' []),
         (''style'', Optional, TName ''ModuleStyle'' []),
         (''messages'', Optional, TName ''ModuleMessages'' []),
         (''templates'', Optional, TName ''ModuleTemplates'' []),
         (''deprecationWarning'', Optional, TUnion [TString, TNull])] TVoid,
      Function ''load'' []
        [(''modules'', Required, TUnion [TString, TArray TString]),
         (''type'', Optional, TUnion [TLit ''text/css'', TLit ''text/javascript''])] TVoid,
      Function ''register'' []
        [(''modules'', Required, TString),
         (''version'', Optional, TUnion [TString, TNumber]),
         (''dependencies'', Optional, TArray TString),
         (''group'', Optional, TUnion [TString, TNull]),
         (''source'', Optional, TString),
         (''skip'', Optional, TUnion [TString, TNull])] TVoid,
      Function ''register'' []
        [(''modules'', Required, TName ''Array'' [register_entry])] TVoid,
      Function ''state'' []
        [(''states'', Required, TName ''Record'' [TString, TName ''ModuleState'' []])] TVoid,
      Const ''maxQueryLength'' TNumber,
      Const ''moduleRegistry'' (TName ''Record'' [TString, TName ''ModuleRegistryEntry'' []]),
      Function ''addLinkTag'' []
        [(''url'', Required, TString), (''media'', Optional, TString),
         (''nextNode'', Optional, TUnion [TName ''Node'' [], TNull])]
        (TName ''HTMLLinkElement'' []),
      Function ''addScriptTag'' []
        [(''src'', Required, TString), (''callback'', Optional, TFunction [] TVoid),
         (''modules'', Optional, TArray TString)]
        (TName ''HTMLScriptElement'' []),
      Function ''enqueue'' []
        [(''dependencies'', Required, TArray TString), (''ready'', Optional, TFunction [] TVoid),
         (''error'', Optional, error_callback)] TVoid,
      Const ''require'' (TName ''ModuleRequire'' []),
      Function ''resolve''
        [TParam ''T'' (Some TString) None, TParam ''U'' (Some (TName ''T'' [])) (Some (TName ''T'' []))]
        [(''modules'', Required, TArray (TName ''U'' []))] (TArray (TName ''T'' [])),
      Function ''work'' [] [] TVoid]]]"

text \<open>The members of \<open>mw.loader\<close> that \<open>mediawiki/loader.d.ts\<close> declares.\<close>

definition mw_loader :: "decl list" where
  "mw_loader = namespace_members [''mw'', ''loader''] loader_d_ts"

text \<open>The type of the \<open>state\<close> field of a registry entry, and the public state type.\<close>

definition registry_entry_state :: "ts_type list" where
  "registry_entry_state = property_types ''state'' (interface_members ''ModuleRegistryEntry'' mw_loader)"

definition public_module_state :: "ts_type list" where
  "public_module_state = type_aliases ''ModuleState'' mw_loader"

text \<open>
  The literals a type admits once the aliases it names are replaced by their definitions
  (one level, which is all these declarations need).
\<close>

fun expand :: "decl list \<Rightarrow> ts_type \<Rightarrow> ts_type list" where
  "expand env (TName n []) = (case type_aliases n env of [t] \<Rightarrow> [t] | _ \<Rightarrow> [TName n []])"
| "expand env (TUnion ts) = concat (map (expand env) ts)"
| "expand env t = [t]"

definition admitted_literals :: "decl list \<Rightarrow> ts_type \<Rightarrow> string list" where
  "admitted_literals env t = concat (map literal_members (expand env t))"

section \<open>The module store: \<open>mediawiki/loader.store.d.ts\<close>\<close>

definition loader_store_d_ts :: "decl list" where
  "loader_store_d_ts = [Namespace [''mw'', ''loader'', ''store'']
     [Interface ''Stats'' []
        [Property ''expired'' Required TNumber, Property ''failed'' Required TNumber,
         Property ''hits'' Required TNumber, Property ''misses'' Required TNumber],
      Const ''key'' TString,
      Const ''vary'' TString,
      Function ''add'' [] [(''module'', Required, TString)] TVoid,
      Function ''clear'' [] [] TVoid,
      Function ''get'' [] [(''module'', Required, TString)] (TUnion [TString, TFalse]),
      Function ''init'' [] [] TVoid,
      Function ''load'' [] [] TVoid,
      Function ''prune'' [] [] TVoid,
      Function ''toJSON'' [] []
        (TObject [(''items'', Required, TString), (''vary'', Required, TString),
                  (''asOf'', Required, TNumber)]),
      Const ''enabled'' (TUnion [TBoolean, TNull]),
      Const ''items'' (TName ''Record'' [TName ''ModuleKey'' [], TAny]),
      Const ''queue'' (TArray TString),
      Const ''stats'' (TName ''Stats'' []),
      Function ''set'' [] [(''module'', Required, TString)] TVoid,
      Function ''requestUpdate'' [] [] TVoid]]"

definition mw_loader_store :: "decl list" where
  "mw_loader_store = namespace_members [''mw'', ''loader'', ''store''] loader_store_d_ts"

section \<open>The base loader: \<open>mediawiki.base/loader.d.ts\<close>\<close>

definition base_loader_d_ts :: "decl list" where
  "base_loader_d_ts = [Namespace [''mw'', ''loader'']
     [Function ''getModuleNames'' [] [] (TArray TString),
      Function ''getScript'' [] [(''url'', Required, TString)] (TName ''JQuery.Promise'' [TAny]),
      Function ''using'' []
        [(''dependencies'', Required, TUnion [TString, TArray TString]),
         (''ready'', Optional,
            TFunction [(''require'', Required, TName ''ModuleRequire'' [])] TVoid),
         (''error'', Optional, error_callback)]
        (TName ''JQuery.Promise'' [TName ''ModuleRequire'' []])]]"

section \<open>Notifications: \<open>mediawiki/notification.d.ts\<close> and \<open>mw.notification\<close>\<close>

definition notify_message :: ts_type where
  "notify_message = TUnion [TString, TName ''Message'' [], TName ''JQuery'' [],
     TName ''HTMLElement'' [], TArray (TName ''HTMLElement'' [])]"

definition partial_options :: ts_type where
  "partial_options = TName ''Partial'' [TName ''Notification.Options'' []]"

definition notification_d_ts :: "decl list" where
  "notification_d_ts = [Namespace [''mw'']
     [Function ''notify'' []
        [(''message'', Required, notify_message), (''options'', Optional, partial_options)]
        (TName ''JQuery.Promise'' [TName ''Notification'' []]),
      Interface ''Notification'' []
        [Property ''$notification'' Required (TName ''JQuery'' []),
         Property ''autoHideSeconds'' Required TNumber,
         Property ''isOpen'' Required TBoolean,
         Property ''isPaused'' Required TBoolean,
         Property ''options'' Required partial_options,
         Property ''timeout'' Required
           (TObject [(''set'', Required, TTypeof ''setTimeout''),
                     (''clear'', Required, TTypeof ''clearTimeout'')]),
         Method ''close'' [] TVoid,
         Method ''pause'' [] TVoid,
         Method ''resume'' [] TVoid,
         Method ''start'' [] TVoid],
      Namespace [''Notification'']
        [Interface ''Options'' []
           [Property ''autoHide'' Required TBoolean,
            Property ''autoHideSeconds'' Required (TUnion [TLit ''long'', TLit ''short'']),
            Property ''tag'' Required (TUnion [TString, TNull]),
            Property ''title'' Required (TUnion [TString, TNull]),
            Property ''type'' Required
              (TUnion [TLit ''error'', TLit ''info'', TLit ''success'', TLit ''warn'', TNull]),
            Property ''visibleTimeout'' Required TBoolean,
            Property ''id'' Required (TUnion [TString, TFalse]),
            Property ''classes'' Required (TUnion [TString, TArray TString, TFalse])]]]]"

text \<open>The document declaring \<open>mw.notification\<close> (its file name is not known).\<close>

definition mw_notification_d_ts :: "decl list" where
  "mw_notification_d_ts = [Namespace [''mw''] [Namespace [''notification'']
     [Const ''autoHideLimit'' TNumber,
      Const ''autoHideSeconds''
        (TObject [(''short'', Required, TNumber), (''long'', Required, TNumber)]),
      Const ''defaults'' (TName ''Notification.Options'' []),
      Function ''pause'' [] [] TVoid,
      Function ''resume'' [] [] TVoid,
      Function ''notify'' []
        [(''message'', Required, notify_message), (''options'', Optional, partial_options)]
        (TName ''Notification'' [])]]]"

text \<open>
  The first document of \<open>mediawiki.base/mw.d.ts\<close>, which declares \<open>mw.notify\<close> a
  second time.
\<close>

definition base_mw_d_ts :: "decl list" where
  "base_mw_d_ts = [Namespace [''mw'']
     [Interface ''AnalyticEventCallback'' []
        [CallSignature [(''topic'', Required, TString),
                        (''data'', Required, TName ''AnalyticEventData'' [])] TVoid],
      Const ''libs'' (TName ''Record'' [TString, TAny]),
      Const ''widgets'' TAny,
      Function ''format'' []
        [(''formatString'', Required, TString), (''parameters'', RestArgs, TArray TString)] TString,
      Function ''message'' []
        [(''key'', Required, TString), (''parameters'', RestArgs, TArray TAny)]
        (TName ''Message'' []),
      Function ''msg'' []
        [(''key'', Required, TString), (''parameters'', RestArgs, TArray TAny)] TString,
      Function ''notify'' []
        [(''message'', Required, notify_message), (''options'', Optional, partial_options)]
        (TName ''JQuery.Promise'' [TName ''Notification'' []]),
      Function ''trackSubscribe'' []
        [(''topic'', Required, TString),
         (''callback'', Required, TName ''AnalyticEventCallback'' [])] TVoid,
      Function ''trackUnsubscribe'' []
        [(''callback'', Required, TName ''AnalyticEventCallback'' [])] TVoid]]"

text \<open>The two entry points: \<open>mw.notify\<close> and \<open>mw.notification.notify\<close>.\<close>

definition mw_notify :: "(params \<times> ts_type) list" where
  "mw_notify = signatures ''notify'' (namespace_members [''mw''] notification_d_ts)"

definition mw_notification_notify :: "(params \<times> ts_type) list" where
  "mw_notification_notify =
     signatures ''notify'' (namespace_members [''mw'', ''notification''] mw_notification_d_ts)"

section \<open>The package manifest\<close>

datatype json = JString string | JArray "json list" | JObject "(string \<times> json) list"

definition package_json :: json where
  "package_json = JObject
     [(''name'', JString ''types-mediawiki''),
      (''version'', JString ''1.8.1''),
      (''description'', JString ''TypeScript definitions for MediaWiki JS interface''),
      (''types'', JString ''index.d.ts''),
      (''scripts'', JObject [(''test'', JString ''tsd''), (''format'', JString ''prettier --write .'')]),
      (''repository'', JObject
         [(''type'', JString ''git''),
          (''url'', JString ''git+https://github.com/wikimedia-gadgets/types-mediawiki.git'')]),
      (''files'', JArray [JString ''mw'', JString ''jquery'', JString ''vue'',
         JString ''api_params'', JString ''index.d.ts'']),
      (''license'', JString ''GPL-3.0-or-later''),
      (''bugs'', JObject
         [(''url'', JString ''https://github.com/wikimedia-gadgets/types-mediawiki/issues'')]),
      (''homepage'', JString ''https://github.com/wikimedia-gadgets/types-mediawiki#readme''),
      (''dependencies'', JObject
         [(''@types/jquery'', JString ''^3.5.5''),
          (''@types/oojs-ui'', JString ''^0.46.0''),
          (''vue'', JString ''3.3.9'')]),
      (''devDependencies'', JObject
         [(''husky'', JString ''^4.3.7''),
          (''lint-staged'', JString ''^10.5.3''),
          (''prettier'', JString ''^2.2.1''),
          (''tsd'', JString ''^0.31.0''),
          (''tslint-config-prettier'', JString ''^1.18.0''),
          (''typescript'', JString ''^4.2.2'')]),
      (''husky'', JObject [(''hooks'', JObject [(''pre-commit'', JString ''lint-staged'')])]),
      (''lint-staged'', JObject [(''*.ts(x)?'', JString ''prettier --write'')]),
      (''tsd'', JObject [(''compilerOptions'', JObject
         [(''typeRoots'', JArray [JString ''./node_modules/@types'', JString ''.''])])])]"

text \<open>Reading a manifest: a key of an object, the strings of an array, the keys of an object.\<close>

fun field :: "string \<Rightarrow> json \<Rightarrow> json option" where
  "field k (JObject kvs) = map_of kvs k"
| "field k _ = None"

fun strings :: "json \<Rightarrow> string list" where
  "strings (JArray js) = concat (map (\<lambda>j. case j of JString s \<Rightarrow> [s] | _ \<Rightarrow> []) js)"
| "strings _ = []"

text \<open>
  The packages a manifest lists under a dependency key (\<open>dependencies\<close>,
  \<open>peerDependencies\<close>, \<open>devDependencies\<close>): none when the key is absent.
\<close>

definition packages :: "string \<Rightarrow> json \<Rightarrow> string list" where
  "packages k m = (case field k m of Some (JObject kvs) \<Rightarrow> map fst kvs | _ \<Rightarrow> [])"

text \<open>A type-only package is one of the \<open>@types\<close> scope.\<close>

definition is_types_package :: "string \<Rightarrow> bool" where
  "is_types_package n = (take 7 n = ''@types/'')"

section \<open>The files of the repository\<close>

text \<open>
  A source document is the list of its top-level items. An ambient declaration is recorded
  by its kind and the name it declares; what stands between the braces of an ambient
  namespace is a list of declarations again (TypeScript admits no implementation in an
  ambient context), and is spelled out above for the namespaces the theorems look into.
  An item of the last three kinds runs when the file is loaded.
\<close>

datatype ambient_kind = NamespaceDecl | InterfaceDecl | ConstDecl | TypeDecl | FunctionDecl

datatype item =
    ReferencePath string
  | ReferenceTypes string
  | Import string
  | Declare ambient_kind string
  | DeclareGlobal "(ambient_kind \<times> string) list"
  | Export ambient_kind string
  | ExportEmpty
  | ExportAssignment string
  | ExportAsNamespace string
  | ConstStatement string
  | FunctionDefinition string
  | ExpressionStatement

datatype content = Source "item list" | Manifest json

text \<open>\<open>Array.prototype.join\<close> on strings.\<close>

fun join :: "string \<Rightarrow> string list \<Rightarrow> string" where
  "join sep [] = []"
| "join sep [x] = x"
| "join sep (x # y # ys) = x @ sep @ join sep (y # ys)"

fun item_of :: "decl \<Rightarrow> item" where
  "item_of (Namespace p ms) = Declare NamespaceDecl (join ''.'' p)"
| "item_of (Interface n ext ms) = Declare InterfaceDecl n"
| "item_of (TypeAlias n t) = Declare TypeDecl n"
| "item_of (Const n t) = Declare ConstDecl n"
| "item_of (Function n tps ps r) = Declare FunctionDecl n"

definition index_d_ts :: "item list" where
  "index_d_ts =
     [ReferencePath ''mediawiki/index.d.ts'',
      ReferenceTypes ''./jquery'',
      ReferenceTypes ''./jquery.client'',
      ReferenceTypes ''./jquery.textSelection'',
      ReferenceTypes ''./mediawiki.api'',
      ReferenceTypes ''./mediawiki.cldr'',
      ReferenceTypes ''./mediawiki.cookie'',
      ReferenceTypes ''./mediawiki.experiments'',
      ReferenceTypes ''./mediawiki.ForeignApi'',
      ReferenceTypes ''./mediawiki.ForeignApi.core'',
      ReferenceTypes ''./mediawiki.jqueryMsg'',
      ReferenceTypes ''./mediawiki.language'',
      ReferenceTypes ''./mediawiki.language.months'',
      ReferenceTypes ''./mediawiki.libs.pluralruleparser'',
      ReferenceTypes ''./mediawiki.notification'',
      ReferenceTypes ''./mediawiki.storage'',
      ReferenceTypes ''./mediawiki.String'',
      ReferenceTypes ''./mediawiki.template'',
      ReferenceTypes ''./mediawiki.Title'',
      ReferenceTypes ''./mediawiki.Uri'',
      ReferenceTypes ''./mediawiki.user'',
      ReferenceTypes ''./mediawiki.util'',
      ReferenceTypes ''./mediawiki.visibleTimeout'',
      ExportAssignment ''mw'',
      ExportAsNamespace ''mw'']"

text \<open>
  The script that generates the API parameter interfaces: the last document of
  \<open>mediawiki.api/Api.d.ts\<close>. Its four functions are embedded below.
\<close>

definition api_params_generator :: "item list" where
  "api_params_generator =
     [ConstStatement ''data'',
      ConstStatement ''queryApiData'',
      FunctionDefinition ''processParamInfo'',
      FunctionDefinition ''indent'',
      FunctionDefinition ''getInterfaceName'',
      FunctionDefinition ''formatInterface'',
      ConstStatement ''actionsTypes'',
      ConstStatement ''queryTypes'',
      ExpressionStatement]"

text \<open>
  Every file of the repository with its path and its documents, in the order of the
  file (a file may hold several documents, one after the other). The last five files
  have no known path: they declare \<open>mw.notification\<close>, the month names of
  \<open>mw.language\<close>, the utility types of \<open>mw\<close>, \<open>mw.language\<close> and \<open>mw.log\<close>, and
  the last is the package manifest.
\<close>

definition repository :: "(string option \<times> content list) list" where
  "repository =
     [(Some ''index.d.ts'', [Source index_d_ts]),
      (Some ''jquery.color/jquery.d.ts'',
         [Source [Declare InterfaceDecl ''JQueryStatic'', Declare NamespaceDecl ''JQuery'']]),
      (Some ''jquery/client.d.ts'',
         [Source [DeclareGlobal [(InterfaceDecl, ''JQueryStatic''), (NamespaceDecl, ''JQuery'')],
                  Export TypeDecl ''ClientNavigator'', ExportEmpty]]),
      (Some ''jquery/collapsibleTabs.d.ts'',
         [Source [Declare InterfaceDecl ''JQueryStatic'', Declare InterfaceDecl ''JQuery'',
                  Declare NamespaceDecl ''JQuery'']]),
      (Some ''jquery/highlightText.d.ts'',
         [Source [DeclareGlobal [(InterfaceDecl, ''JQueryStatic''), (InterfaceDecl, ''JQuery''),
                                 (NamespaceDecl, ''JQuery'')], ExportEmpty],
          Source [Declare NamespaceDecl ''mw'']]),
      (Some ''mediawiki/loader.d.ts'', [Source (map item_of loader_d_ts)]),
      (Some ''mediawiki/notification.d.ts'', [Source (map item_of notification_d_ts)]),
      (Some ''mediawiki/loader.store.d.ts'',
         [Source (map item_of loader_store_d_ts),
          Source [Declare ConstDecl ''mediaWiki'', Declare NamespaceDecl ''mw'']]),
      (Some ''mediawiki.ForeignApi.core/index.d.ts'',
         [Source [Import ''oojs'', Import ''../mediawiki.api'', Import ''../mediawiki.Uri'',
                  Import ''./ForeignApi.d.ts'', Import ''./ForeignRest.d.ts'',
                  Export ConstDecl ''ForeignApi'', Export ConstDecl ''ForeignRest''],
          Source [Declare NamespaceDecl ''mw'']]),
      (Some ''mediawiki.base/mw.d.ts'',
         [Source (map item_of base_mw_d_ts), Source [Declare NamespaceDecl ''mw.log'']]),
      (Some ''mediawiki.base/loader.d.ts'',
         [Source (map item_of base_loader_d_ts), Source [Declare NamespaceDecl ''mw'']]),
      (Some ''mediawiki.api/Api.d.ts'',
         [Source [Declare NamespaceDecl ''mw''], Source [Declare NamespaceDecl ''mw.Api''],
          Source api_params_generator]),
      (None, [Source (map item_of mw_notification_d_ts)]),
      (None, [Source [Declare NamespaceDecl ''mw.language'']]),
      (None, [Source [Declare NamespaceDecl ''mw'']]),
      (None,
         [Source [DeclareGlobal [(NamespaceDecl, ''mw'')], ExportEmpty],
          Source [Declare NamespaceDecl ''mw'']]),
      (None, [Manifest package_json])]"

definition documents :: "content list" where
  "documents = concat (map snd repository)"

subsection \<open>What a document holds\<close>

fun runs :: "item \<Rightarrow> bool" where
  "runs (ConstStatement n) = True"
| "runs (FunctionDefinition n) = True"
| "runs ExpressionStatement = True"
| "runs _ = False"

text \<open>A document has an implementation when one of its items runs.\<close>

fun has_implementation :: "content \<Rightarrow> bool" where
  "has_implementation (Source its) = list_ex runs its"
| "has_implementation (Manifest j) = False"

text \<open>The functions the repository defines with a body.\<close>

fun defined_functions :: "content \<Rightarrow> string list" where
  "defined_functions (Source its) =
     concat (map (\<lambda>i. case i of FunctionDefinition n \<Rightarrow> [n] | _ \<Rightarrow> []) its)"
| "defined_functions (Manifest j) = []"

text \<open>
  The names a document declares at its top level, each with its kind. A reference, an
  import and an export of the whole namespace declare nothing themselves.
\<close>

fun declared :: "item \<Rightarrow> (ambient_kind \<times> string) list" where
  "declared (Declare k n) = [(k, n)]"
| "declared (DeclareGlobal ds) = ds"
| "declared (Export k n) = [(k, n)]"
| "declared _ = []"

text \<open>
  A document declares shapes when it is a source document whose items are all ambient
  (none runs). A manifest is data: it declares no shape.
\<close>

fun declares_shapes :: "content \<Rightarrow> bool" where
  "declares_shapes (Source its) = (\<not> list_ex runs its)"
| "declares_shapes (Manifest j) = False"

text \<open>The global a dotted name lives in: \<open>mw\<close> for \<open>mw.loader.store\<close>.\<close>

definition root :: "string \<Rightarrow> string" where
  "root n = takeWhile (\<lambda>c. c \<noteq> CHR ''.'') n"

fun declared_roots :: "content \<Rightarrow> string list" where
  "declared_roots (Source its) = map (root \<circ> snd) (concat (map declared its))"
| "declared_roots (Manifest j) = []"

subsection \<open>The entry point and the parts it refers to\<close>

text \<open>
  A part of the package is a directory holding declaration files. A \<open>path\<close> reference
  names a file of a part, a \<open>types\<close> reference names the part after \<open>./\<close>.
\<close>

definition directory :: "string \<Rightarrow> string option" where
  "directory p = (if CHR ''/'' \<in> set p then Some (takeWhile (\<lambda>c. c \<noteq> CHR ''/'') p) else None)"

fun referenced_part :: "item \<Rightarrow> string list" where
  "referenced_part (ReferencePath p) = (case directory p of Some d \<Rightarrow> [d] | None \<Rightarrow> [])"
| "referenced_part (ReferenceTypes t) = (if take 2 t = ''./'' then [drop 2 t] else [])"
| "referenced_part _ = []"

definition referenced_parts :: "item list \<Rightarrow> string list" where
  "referenced_parts its = concat (map referenced_part its)"

text \<open>The parts present: the directories of the files whose path is known.\<close>

definition parts :: "string list" where
  "parts = remdups (concat (map (\<lambda>(p, cs).
     case Option.bind p directory of Some d \<Rightarrow> [d] | None \<Rightarrow> []) repository))"

fun export_assignments :: "item list \<Rightarrow> string list" where
  "export_assignments [] = []"
| "export_assignments (ExportAssignment n # its) = n # export_assignments its"
| "export_assignments (_ # its) = export_assignments its"

fun namespace_exports :: "item list \<Rightarrow> string list" where
  "namespace_exports [] = []"
| "namespace_exports (ExportAsNamespace n # its) = n # namespace_exports its"
| "namespace_exports (_ # its) = namespace_exports its"

section \<open>The generator of the API parameter interfaces\<close>

text \<open>
  The one document with function bodies. It asks a wiki for the description of its API
  modules and prints an interface for each. The four functions are pure; the two requests
  and the final \<open>console.log\<close> are the inputs and the output of \<open>generated\<close>.
  The \<open>type\<close> of a parameter is an array of the values it admits, or the name of a type.
\<close>

datatype api_type = Values "string list" | Named string

definition quoted :: "string \<Rightarrow> string" where
  "quoted s = CHR 0x22 # s @ [CHR 0x22]"

definition processParamInfo :: "api_type \<Rightarrow> string \<Rightarrow> string \<Rightarrow> bool \<Rightarrow> string \<times> string" where
  "processParamInfo type prefix name multi =
     (let type1 =
        (case type of
           Values es \<Rightarrow>
             (let t = join '' | '' (map quoted es)
              in if multi then ''OneOrMore<'' @ t @ ''>'' else t)
         | Named n \<Rightarrow>
             (let t = (if n = ''text'' \<or> n = ''title'' \<or> n = ''user'' \<or> n = ''raw'' then ''string''
                       else if n = ''integer'' then ''number''
                       else n)
              in if multi then t @ '' | '' @ t @ ''[]'' else t));
        type2 =
          (if name = ''tags'' \<or> name = ''tagfilter'' \<or> name = ''wikis'' \<or> name = ''site''
           then ''string | string[]'' else type1);
        name1 = prefix @ name;
        name2 = (if CHR ''-'' \<in> set name1 then quoted name1 else name1)
      in (name2, type2))"

definition indent :: "string \<Rightarrow> string" where
  "indent l = CHR 0x09 # l"

text \<open>
  \<open>String.prototype.split\<close> at a one-character separator: never empty, so the \<open>pop()\<close>
  of \<open>getInterfaceName\<close> always finds an element.
\<close>

fun split_at :: "char \<Rightarrow> string \<Rightarrow> string list" where
  "split_at c [] = [[]]"
| "split_at c (x # xs) =
     (if x = c then [] # split_at c xs
      else (case split_at c xs of w # ws \<Rightarrow> (x # w) # ws | [] \<Rightarrow> [[x]]))"

text \<open>\<open>replace(/Api/g, "")\<close>: every match, left to right, the text scanned once.\<close>

fun remove_Api :: "string \<Rightarrow> string" where
  "remove_Api [] = []"
| "remove_Api (c # cs) =
     (if take 3 (c # cs) = ''Api'' then remove_Api (drop 2 cs) else c # remove_Api cs)"

record api_param =
  type :: api_type
  name :: string
  multi :: bool

record api_module =
  classname :: string
  prefix :: string
  parameters :: "api_param list"

definition getInterfaceName :: "api_module \<Rightarrow> string" where
  "getInterfaceName m = remove_Api (last (split_at (CHR 0x5C) (classname m))) @ ''Params''"

definition formatInterface :: "api_module \<Rightarrow> string" where
  "formatInterface m =
     join [CHR 0x0A] (map indent
       ([''interface '' @ getInterfaceName m @ '' extends Params {''] @
        map (\<lambda>p. case processParamInfo (type p) (prefix m) (name p) (multi p) of
                    (n, t) \<Rightarrow> CHR 0x09 # n @ ''?: '' @ t @ '';'') (parameters m) @
        [''}'']))"

text \<open>What the script prints, from the modules of the two responses.\<close>

definition generated :: "api_module list \<Rightarrow> api_module list \<Rightarrow> string" where
  "generated actions queries =
     join [CHR 0x0A]
       [''declare namespace mw.Api {'',
        join [CHR 0x0A, CHR 0x0A] (map formatInterface actions),
        [],
        join [CHR 0x0A, CHR 0x0A] (map formatInterface queries),
        ''}'']"

section \<open>The serialised form of a value\<close>

text \<open>
  JavaScript serialises an object that has a \<open>toJSON\<close> function as what that function
  returns (\<open>JSON.stringify\<close> calls it): the result type of a declared \<open>toJSON\<close> is the
  declared shape of the serialised object. A result type given by name is looked up
  among the interfaces in scope, so the shape found does not depend on whether the type is
  written in place or named.
\<close>

fun properties :: "member list \<Rightarrow> (string \<times> param_kind \<times> ts_type) list" where
  "properties [] = []"
| "properties (Property n k t # ms) = (n, k, t) # properties ms"
| "properties (_ # ms) = properties ms"

fun object_fields :: "decl list \<Rightarrow> ts_type \<Rightarrow> (string \<times> param_kind \<times> ts_type) list option" where
  "object_fields env (TObject fs) = Some fs"
| "object_fields env (TName n []) =
     (if interface_members n env = [] then None
      else Some (properties (interface_members n env)))"
| "object_fields env t = None"

definition serialised_shapes :: "decl list \<Rightarrow> (string \<times> param_kind \<times> ts_type) list list" where
  "serialised_shapes env =
     concat (map (\<lambda>s. case object_fields env (snd s) of Some fs \<Rightarrow> [fs] | None \<Rightarrow> [])
       (signatures ''toJSON'' env))"

fun primitive :: "ts_type \<Rightarrow> bool" where
  "primitive TString = True"
| "primitive TNumber = True"
| "primitive TBoolean = True"
| "primitive TNull = True"
| "primitive _ = False"

section \<open>The constants and functions of every document\<close>

text \<open>
  The names of the constants, and of the functions and methods, that a document declares
  at any depth: one entry for each declaration, in the order of the source, so that an
  overloaded function is listed once for each signature. A constructor and a call
  signature have no name and are not listed; a property is not a function.
\<close>

fun method_names :: "member list \<Rightarrow> string list" where
  "method_names [] = []"
| "method_names (Method n ps r # ms) = n # method_names ms"
| "method_names (_ # ms) = method_names ms"

fun constants_of :: "decl \<Rightarrow> string list" where
  "constants_of (Const n t) = [n]"
| "constants_of (Namespace p ms) = concat (map constants_of ms)"
| "constants_of _ = []"

fun callables_of :: "decl \<Rightarrow> string list" where
  "callables_of (Function n tps ps r) = [n]"
| "callables_of (Interface n ext ms) = method_names ms"
| "callables_of (Namespace p ms) = concat (map callables_of ms)"
| "callables_of _ = []"

definition values_of :: "decl list \<Rightarrow> string list \<times> string list" where
  "values_of ds = (concat (map constants_of ds), concat (map callables_of ds))"

text \<open>The same for the script: the constants it binds and the functions it defines.\<close>

definition values_of_items :: "item list \<Rightarrow> string list \<times> string list" where
  "values_of_items its =
     (concat (map (\<lambda>i. case i of ConstStatement n \<Rightarrow> [n] | _ \<Rightarrow> []) its),
      concat (map (\<lambda>i. case i of FunctionDefinition n \<Rightarrow> [n] | _ \<Rightarrow> []) its))"

text \<open>
  For every file its documents, as in \<open>repository\<close>, each with its constants and its
  functions. The documents spelled out above are read off their declarations.
\<close>

definition declared_values :: "(string option \<times> (string list \<times> string list) list) list" where
  "declared_values =
     [(Some ''index.d.ts'', [([], [])]),
      (Some ''jquery.color/jquery.d.ts'',
         [([], [''getRGB'', ''rgbToHsl'', ''hslToRgb'', ''getColorBrightness''])]),
      (Some ''jquery/client.d.ts'', [([], [''profile'', ''test''])]),
      (Some ''jquery/collapsibleTabs.d.ts'',
         [([], [''collapsibleTabs'', ''expandCondition'', ''collapseCondition'', ''addData'',
                ''getSettings'', ''handleResize'', ''moveToCollapsed'', ''moveToExpanded'',
                ''calculateTabDistance''])]),
      (Some ''jquery/highlightText.d.ts'',
         [([], [''highlightText'', ''innerHighlight'', ''prefixHighlight'',
                ''prefixPlusComboHighlight'', ''splitAndHighlight'']),
          ([], [])]),
      (Some ''mediawiki/loader.d.ts'', [values_of loader_d_ts]),
      (Some ''mediawiki/notification.d.ts'', [values_of notification_d_ts]),
      (Some ''mediawiki/loader.store.d.ts'',
         [values_of loader_store_d_ts,
          ([''mediaWiki'', ''trackQueue''],
           [''now'', ''requestIdleCallback'', ''track'', ''trackError''])]),
      (Some ''mediawiki.ForeignApi.core/index.d.ts'',
         [([''ForeignApi'', ''ForeignRest''], []), ([], [''isParseable'', ''parseDom''])]),
      (Some ''mediawiki.base/mw.d.ts'',
         [values_of base_mw_d_ts, ([], [''deprecate'', ''error'', ''makeDeprecated''])]),
      (Some ''mediawiki.base/loader.d.ts'', [values_of base_loader_d_ts, ([''user''], [])]),
      (Some ''mediawiki.api/Api.d.ts'',
         [([], [''abort'', ''get'', ''post'', ''preprocessParameters'', ''ajax'',
                ''postWithToken'', ''postWithToken'', ''postWithToken'',
                ''getToken'', ''getToken'', ''getToken'',
                ''badToken'', ''badToken'', ''badToken'',
                ''getErrorMessage'', ''postWithEditToken'', ''getEditToken'', ''create'',
                ''edit'', ''newSection'', ''getUserInfo'', ''assertCurrentUser'',
                ''saveOption'', ''saveOptions'', ''watch'', ''unwatch'', ''parse'',
                ''getMessages'', ''loadMessages'', ''loadMessagesIfMissing'', ''isCategory'',
                ''getCategoriesByPrefix'', ''getCategories'', ''rollback'', ''chunkedUpload'',
                ''chunkedUploadToStash'', ''upload'', ''uploadFromStash'', ''uploadToStash'',
                ''login'']),
          ([], []),
          values_of_items api_params_generator]),
      (None, [values_of mw_notification_d_ts]),
      (None, [([''abbrev'', ''keys'', ''genitive'', ''names''], [])]),
      (None, [([], [])]),
      (None,
         [([''data'', ''months''],
           [''bcp47'', ''convertGrammar'', ''convertNumber'', ''convertPlural'', ''gender'',
            ''getData'', ''getDigitTransformTable'', ''getFallbackLanguageChain'',
            ''getFallbackLanguages'', ''getSeparatorTransformTable'', ''listToText'',
            ''setData'', ''setData'', ''preConvertPlural'']),
          ([], [''log'', ''warn''])]),
      (None, [([], [])])]"

definition all_constants :: "string list" where
  "all_constants = concat (map fst (concat (map snd declared_values)))"

definition all_callables :: "string list" where
  "all_callables = concat (map snd (concat (map snd declared_values)))"

text \<open>The files with a document that declares a function, or a constant, of a given name.\<close>

definition files_declaring_function :: "string \<Rightarrow> string option list" where
  "files_declaring_function n =
     map fst (filter (\<lambda>f. list_ex (\<lambda>v. n \<in> set (snd v)) (snd f)) declared_values)"

definition files_declaring_constant :: "string \<Rightarrow> string option list" where
  "files_declaring_constant n =
     map fst (filter (\<lambda>f. list_ex (\<lambda>v. n \<in> set (fst v)) (snd f)) declared_values)"

section \<open>Evaluating the declarations\<close>

lemma mw_loader_store_eq:
  "mw_loader_store =
     [Interface ''Stats'' []
        [Property ''expired'' Required TNumber, Property ''failed'' Required TNumber,
         Property ''hits'' Required TNumber, Property ''misses'' Required TNumber],
      Const ''key'' TString,
      Const ''vary'' TString,
      Function ''add'' [] [(''module'', Required, TString)] TVoid,
      Function ''clear'' [] [] TVoid,
      Function ''get'' [] [(''module'', Required, TString)] (TUnion [TString, TFalse]),
      Function ''init'' [] [] TVoid,
      Function ''load'' [] [] TVoid,
      Function ''prune'' [] [] TVoid,
      Function ''toJSON'' [] []
        (TObject [(''items'', Required, TString), (''vary'', Required, TString),
                  (''asOf'', Required, TNumber)]),
      Const ''enabled'' (TUnion [TBoolean, TNull]),
      Const ''items'' (TName ''Record'' [TName ''ModuleKey'' [], TAny]),
      Const ''queue'' (TArray TString),
      Const ''stats'' (TName ''Stats'' []),
      Function ''set'' [] [(''module'', Required, TString)] TVoid,
      Function ''requestUpdate'' [] [] TVoid]"
  by (simp add: mw_loader_store_def namespace_members_def loader_store_d_ts_def)

lemmas mw_loader_eval =
  mw_loader_def namespace_members_def loader_d_ts_def ModuleRegistryEntry_def ModuleDeclarator_def

lemma registry_entry_state_eq:
  "registry_entry_state =
     [TUnion [TLit ''error'', TLit ''loaded'', TLit ''missing'', TLit ''registered'', TLit ''ready'']]"
  by (simp add: registry_entry_state_def mw_loader_eval)

lemma public_module_state_eq: "public_module_state = [ModuleState]"
  by (simp add: public_module_state_def mw_loader_eval)

lemma literal_members_ModuleState:
  "literal_members ModuleState =
     [''error'', ''executing'', ''loaded'', ''loading'', ''missing'', ''ready'', ''registered'']"
  by (simp add: ModuleState_def)

lemma getState_result:
  "map snd (signatures ''getState'' mw_loader) = [TUnion [TName ''ModuleState'' [], TNull]]"
  by (simp add: mw_loader_eval)

lemma getState_admits:
  "admitted_literals mw_loader (TUnion [TName ''ModuleState'' [], TNull]) = literal_members ModuleState"
  by (simp add: mw_loader_eval admitted_literals_def)

lemma item_of_files:
  "map item_of loader_d_ts = [Declare NamespaceDecl ''mw'']"
  "map item_of notification_d_ts = [Declare NamespaceDecl ''mw'']"
  "map item_of loader_store_d_ts = [Declare NamespaceDecl ''mw.loader.store'']"
  "map item_of base_loader_d_ts = [Declare NamespaceDecl ''mw.loader'']"
  "map item_of mw_notification_d_ts = [Declare NamespaceDecl ''mw'']"
  "map item_of base_mw_d_ts = [Declare NamespaceDecl ''mw'']"
  by (simp_all add: loader_d_ts_def notification_d_ts_def loader_store_d_ts_def
      base_loader_d_ts_def mw_notification_d_ts_def base_mw_d_ts_def)

lemma documents_eq:
  "documents =
     [Source index_d_ts,
      Source [Declare InterfaceDecl ''JQueryStatic'', Declare NamespaceDecl ''JQuery''],
      Source [DeclareGlobal [(InterfaceDecl, ''JQueryStatic''), (NamespaceDecl, ''JQuery'')],
              Export TypeDecl ''ClientNavigator'', ExportEmpty],
      Source [Declare InterfaceDecl ''JQueryStatic'', Declare InterfaceDecl ''JQuery'',
              Declare NamespaceDecl ''JQuery''],
      Source [DeclareGlobal [(InterfaceDecl, ''JQueryStatic''), (InterfaceDecl, ''JQuery''),
                             (NamespaceDecl, ''JQuery'')], ExportEmpty],
      Source [Declare NamespaceDecl ''mw''],
      Source [Declare NamespaceDecl ''mw''],
      Source [Declare NamespaceDecl ''mw''],
      Source [Declare NamespaceDecl ''mw.loader.store''],
      Source [Declare ConstDecl ''mediaWiki'', Declare NamespaceDecl ''mw''],
      Source [Import ''oojs'', Import ''../mediawiki.api'', Import ''../mediawiki.Uri'',
              Import ''./ForeignApi.d.ts'', Import ''./ForeignRest.d.ts'',
              Export ConstDecl ''ForeignApi'', Export ConstDecl ''ForeignRest''],
      Source [Declare NamespaceDecl ''mw''],
      Source [Declare NamespaceDecl ''mw''],
      Source [Declare NamespaceDecl ''mw.log''],
      Source [Declare NamespaceDecl ''mw.loader''],
      Source [Declare NamespaceDecl ''mw''],
      Source [Declare NamespaceDecl ''mw''],
      Source [Declare NamespaceDecl ''mw.Api''],
      Source api_params_generator,
      Source [Declare NamespaceDecl ''mw''],
      Source [Declare NamespaceDecl ''mw.language''],
      Source [Declare NamespaceDecl ''mw''],
      Source [DeclareGlobal [(NamespaceDecl, ''mw'')], ExportEmpty],
      Source [Declare NamespaceDecl ''mw''],
      Manifest package_json]"
  by (simp add: documents_def repository_def item_of_files)

subsection \<open>The generator's functions\<close>

text \<open>
  \<open>split\<close> never returns an empty array, so \<open>last\<close> in \<open>getInterfaceName\<close> reads an
  element; joining the pieces with the separator gives the string back.
\<close>

lemma split_at_not_empty: "split_at c s \<noteq> []"
  by (induction s) (auto split: list.splits)

lemma join_split_at: "join [c] (split_at c s) = s"
proof (induction s)
  case Nil
  show ?case by simp
next
  case (Cons x xs)
  obtain w ws where sp: "split_at c xs = w # ws"
    using split_at_not_empty [of c xs] by (cases "split_at c xs") auto
  show ?case
  proof (cases "x = c")
    case True
    with Cons sp show ?thesis by simp
  next
    case False
    with Cons sp show ?thesis by (cases ws) auto
  qed
qed

lemma remove_Api_length: "length (remove_Api s) \<le> length s"
proof (induction s rule: remove_Api.induct)
  case 1
  show ?case by simp
next
  case (2 c cs)
  then show ?case by (cases "take 3 (c # cs) = ''Api''") auto
qed

lemma processParamInfo_name:
  "fst (processParamInfo t p n m) = (if CHR ''-'' \<in> set (p @ n) then quoted (p @ n) else p @ n)"
  by (simp add: processParamInfo_def Let_def)

section \<open>The claims\<close>

text \<open>
  C1, as the specification states it, fails: every source file would hold ambient
  declarations only, with no function body and no statement. The last document of
  \<open>mediawiki.api/Api.d.ts\<close> is a script: it defines four functions with bodies and runs
  five statements, and \<open>processParamInfo\<close> computes.
\<close>

theorem C1_generator_has_implementation:
  "Source api_params_generator \<in> set documents
   \<and> has_implementation (Source api_params_generator)
   \<and> defined_functions (Source api_params_generator) =
       [''processParamInfo'', ''indent'', ''getInterfaceName'', ''formatInterface'']
   \<and> length (filter runs api_params_generator) = 9
   \<and> processParamInfo (Named ''integer'') ''rc'' ''limit'' True = (''rclimit'', ''number | number[]'')"
proof -
  have "Source api_params_generator \<in> set documents"
    by (simp add: documents_eq)
  moreover have "has_implementation (Source api_params_generator)"
    by (simp add: api_params_generator_def)
  moreover have "defined_functions (Source api_params_generator) =
       [''processParamInfo'', ''indent'', ''getInterfaceName'', ''formatInterface'']"
    by (simp add: api_params_generator_def)
  moreover have "length (filter runs api_params_generator) = 9"
    by (simp add: api_params_generator_def)
  moreover have "processParamInfo (Named ''integer'') ''rc'' ''limit'' True =
       (''rclimit'', ''number | number[]'')"
    by (simp add: processParamInfo_def)
  ultimately show ?thesis by blast
qed

text \<open>
  C1, amended: of the 25 documents of the repository, the generator script is the only
  one with an implementation; no other document has a function body or a statement that
  runs, and the only file holding one is \<open>mediawiki.api/Api.d.ts\<close>.
\<close>

theorem C1_only_generator_has_implementation:
  "length documents = 25
   \<and> filter has_implementation documents = [Source api_params_generator]
   \<and> map fst (filter (\<lambda>f. list_ex has_implementation (snd f)) repository) =
       [Some ''mediawiki.api/Api.d.ts'']"
proof -
  have "length documents = 25"
    by (simp add: documents_eq)
  moreover have "filter has_implementation documents = [Source api_params_generator]"
    by (simp add: documents_eq api_params_generator_def index_d_ts_def)
  moreover have "map fst (filter (\<lambda>f. list_ex has_implementation (snd f)) repository) =
       [Some ''mediawiki.api/Api.d.ts'']"
    by (simp add: repository_def item_of_files api_params_generator_def index_d_ts_def)
  ultimately show ?thesis by blast
qed

text \<open>
  C2, as the specification states it, fails: every dependency of the manifest would be a
  peer dependency on a type-only package. \<open>vue\<close> is listed under \<open>dependencies\<close>, the
  manifest has no \<open>peerDependencies\<close> at all, and \<open>vue\<close> is not a package of types.
\<close>

theorem C2_vue_is_no_peer_type_dependency:
  "''vue'' \<in> set (packages ''dependencies'' package_json)
   \<and> ''vue'' \<notin> set (packages ''peerDependencies'' package_json)
   \<and> \<not> is_types_package ''vue''"
  by (simp add: package_json_def packages_def is_types_package_def)

text \<open>
  C2, amended: the manifest gives the package its name, its version and the list of the
  files to include; it declares no peer dependency; its three dependencies are ordinary
  \<open>dependencies\<close>, two of them type-only packages (of jQuery and of OOUI) and the third
  the package \<open>vue\<close>.
\<close>

theorem C2_manifest_fields:
  "field ''name'' package_json = Some (JString ''types-mediawiki'')
   \<and> field ''version'' package_json = Some (JString ''1.8.1'')
   \<and> map_option strings (field ''files'' package_json) =
       Some [''mw'', ''jquery'', ''vue'', ''api_params'', ''index.d.ts'']
   \<and> field ''peerDependencies'' package_json = None
   \<and> packages ''dependencies'' package_json = [''@types/jquery'', ''@types/oojs-ui'', ''vue'']
   \<and> filter is_types_package (packages ''dependencies'' package_json) =
       [''@types/jquery'', ''@types/oojs-ui'']"
  by (simp add: package_json_def packages_def is_types_package_def)

lemma values_of_files:
  "values_of loader_d_ts =
     ([''maxQueryLength'', ''moduleRegistry'', ''require''],
      [''addStyleTag'', ''getState'', ''impl'', ''implement'', ''load'', ''register'',
       ''register'', ''state'', ''addLinkTag'', ''addScriptTag'', ''enqueue'', ''resolve'',
       ''work''])"
  "values_of notification_d_ts = ([], [''notify'', ''close'', ''pause'', ''resume'', ''start''])"
  "values_of loader_store_d_ts =
     ([''key'', ''vary'', ''enabled'', ''items'', ''queue'', ''stats''],
      [''add'', ''clear'', ''get'', ''init'', ''load'', ''prune'', ''toJSON'', ''set'',
       ''requestUpdate''])"
  "values_of base_mw_d_ts =
     ([''libs'', ''widgets''],
      [''format'', ''message'', ''msg'', ''notify'', ''trackSubscribe'', ''trackUnsubscribe''])"
  "values_of base_loader_d_ts = ([], [''getModuleNames'', ''getScript'', ''using''])"
  "values_of mw_notification_d_ts =
     ([''autoHideLimit'', ''autoHideSeconds'', ''defaults''], [''pause'', ''resume'', ''notify''])"
  "values_of_items api_params_generator =
     ([''data'', ''queryApiData'', ''actionsTypes'', ''queryTypes''],
      [''processParamInfo'', ''indent'', ''getInterfaceName'', ''formatInterface''])"
  by (simp_all add: values_of_def values_of_items_def loader_d_ts_def notification_d_ts_def
      loader_store_d_ts_def base_mw_d_ts_def base_loader_d_ts_def mw_notification_d_ts_def
      api_params_generator_def ModuleRegistryEntry_def ModuleDeclarator_def)

lemma declared_values_aligned:
  "map fst declared_values = map fst repository
   \<and> map (\<lambda>f. length (snd f)) declared_values = map (\<lambda>f. length (snd f)) repository"
  by (simp add: declared_values_def repository_def)

text \<open>A namespace reached through a dotted declaration is found under its prefix.\<close>

lemma namespace_members_prefix:
  "namespace_members [''mw''] loader_store_d_ts = [Namespace [''loader'', ''store''] mw_loader_store]"
  by (simp add: mw_loader_store_def namespace_members_def loader_store_d_ts_def)

text \<open>A named object type is resolved: \<open>Stats\<close> has the four fields of its interface.\<close>

lemma object_fields_Stats:
  "object_fields mw_loader_store (TName ''Stats'' []) =
     Some [(''expired'', Required, TNumber), (''failed'', Required, TNumber),
           (''hits'', Required, TNumber), (''misses'', Required, TNumber)]"
  by (simp add: mw_loader_store_eq)

lemma toJSON_count: "length (filter (\<lambda>n. n = ''toJSON'') all_callables) = 1"
  by (simp add: all_callables_def declared_values_def values_of_files)

lemma key_vary_count: "filter (\<lambda>n. n = ''key'' \<or> n = ''vary'') all_constants = [''key'', ''vary'']"
  by (simp add: all_constants_def declared_values_def values_of_files)

text \<open>
  C3, as the specification states it, fails: no declared constant, signature or result
  type would fix the shape of the serialised store. \<open>mw.loader.store\<close> declares the
  function \<open>toJSON\<close>, whose result is what the store is serialised as, with a result
  type of exactly three required fields of primitive type: \<open>items\<close>, \<open>vary\<close>, \<open>asOf\<close>.
\<close>

theorem C3_toJSON_fixes_store_shape:
  "signatures ''toJSON'' mw_loader_store =
     [([], TObject [(''items'', Required, TString), (''vary'', Required, TString),
                    (''asOf'', Required, TNumber)])]
   \<and> serialised_shapes mw_loader_store \<noteq> []
   \<and> map (\<lambda>f. (fst f, fst (snd f), primitive (snd (snd f))))
         (concat (serialised_shapes mw_loader_store)) =
       [(''items'', Required, True), (''vary'', Required, True), (''asOf'', Required, True)]"
  by (simp add: mw_loader_store_eq serialised_shapes_def)

text \<open>
  C3, amended: throughout the repository, one declaration fixes the form in which data
  is serialised: \<open>toJSON\<close> is declared once, in \<open>mw.loader.store\<close>, and its result gives
  the serialised store three fields, \<open>items\<close> and \<open>vary\<close> of type \<open>string\<close> and \<open>asOf\<close> of
  type \<open>number\<close>. No declaration fixes the storage key or the vary string: the only
  constants named \<open>key\<close> and \<open>vary\<close> are those of \<open>mw.loader.store\<close>, and both are
  declared as \<open>string\<close>, a type that fixes no string.
\<close>

theorem C3_store_serialised_by_toJSON:
  "map fst declared_values = map fst repository
   \<and> map (\<lambda>f. length (snd f)) declared_values = map (\<lambda>f. length (snd f)) repository
   \<and> files_declaring_function ''toJSON'' = [Some ''mediawiki/loader.store.d.ts'']
   \<and> length (filter (\<lambda>n. n = ''toJSON'') all_callables) = 1
   \<and> serialised_shapes mw_loader_store =
       [[(''items'', Required, TString), (''vary'', Required, TString),
         (''asOf'', Required, TNumber)]]
   \<and> files_declaring_constant ''key'' = [Some ''mediawiki/loader.store.d.ts'']
   \<and> files_declaring_constant ''vary'' = [Some ''mediawiki/loader.store.d.ts'']
   \<and> filter (\<lambda>n. n = ''key'' \<or> n = ''vary'') all_constants = [''key'', ''vary'']
   \<and> const_types ''key'' mw_loader_store = [TString]
   \<and> const_types ''vary'' mw_loader_store = [TString]
   \<and> literal_members TString = []"
proof -
  have hook: "files_declaring_function ''toJSON'' = [Some ''mediawiki/loader.store.d.ts'']"
    by (simp add: files_declaring_function_def declared_values_def values_of_files)
  have shape: "serialised_shapes mw_loader_store =
       [[(''items'', Required, TString), (''vary'', Required, TString),
         (''asOf'', Required, TNumber)]]"
    by (simp add: mw_loader_store_eq serialised_shapes_def)
  have key: "files_declaring_constant ''key'' = [Some ''mediawiki/loader.store.d.ts'']"
    by (simp add: files_declaring_constant_def declared_values_def values_of_files)
  have vary: "files_declaring_constant ''vary'' = [Some ''mediawiki/loader.store.d.ts'']"
    by (simp add: files_declaring_constant_def declared_values_def values_of_files)
  have types: "const_types ''key'' mw_loader_store = [TString]
      \<and> const_types ''vary'' mw_loader_store = [TString]"
    by (simp add: mw_loader_store_eq)
  have no_literal: "literal_members TString = []"
    by simp
  from declared_values_aligned hook toJSON_count shape key vary key_vary_count types no_literal
  show ?thesis by blast
qed

text \<open>
  C4, as the specification states it, fails: every file would declare the shape of the
  runtime's objects. The package manifest is a file of the repository and declares no
  shape: it is data, and no name is declared in it.
\<close>

theorem C4_manifest_declares_no_shape:
  "Manifest package_json \<in> set documents
   \<and> \<not> declares_shapes (Manifest package_json)
   \<and> declared_roots (Manifest package_json) = []"
  by (simp add: documents_eq)

text \<open>
  C4, amended: every document of the repository except the generator script and the
  package manifest consists of ambient declarations (with the references, imports and
  exports that tie the files together), and what they declare lives in the runtime's
  globals \<open>mw\<close>, \<open>mediaWiki\<close>, \<open>JQuery\<close> and \<open>JQueryStatic\<close>, or is an export of
  a module (\<open>ForeignApi\<close>, \<open>ForeignRest\<close>, \<open>ClientNavigator\<close>).
\<close>

theorem C4_documents_declaring_shapes:
  "filter (\<lambda>d. \<not> declares_shapes d) documents = [Source api_params_generator, Manifest package_json]
   \<and> set (concat (map declared_roots documents)) =
       {''mw'', ''mediaWiki'', ''JQuery'', ''JQueryStatic'', ''ForeignApi'', ''ForeignRest'',
        ''ClientNavigator''}"
proof -
  have "filter (\<lambda>d. \<not> declares_shapes d) documents =
      [Source api_params_generator, Manifest package_json]"
    by (simp add: documents_eq api_params_generator_def index_d_ts_def)
  moreover have "set (concat (map declared_roots documents)) =
       {''mw'', ''mediaWiki'', ''JQuery'', ''JQueryStatic'', ''ForeignApi'', ''ForeignRest'',
        ''ClientNavigator''}"
    by code_simp
  ultimately show ?thesis by blast
qed

text \<open>
  C5: the declarations give the interface of the module loader. \<open>mw.loader\<close> declares
  \<open>register\<close>, \<open>resolve\<close>, \<open>load\<close> and \<open>impl\<close> in \<open>mediawiki/loader.d.ts\<close> and \<open>using\<close>,
  whose result is a promise, in \<open>mediawiki.base/loader.d.ts\<close>; \<open>mw.loader.store\<close> is
  declared with its nine functions. None of them is implemented: the functions the
  repository defines with a body are the four of the generator script.
\<close>

theorem C5_loader_interface_declared_not_implemented:
  "{''register'', ''resolve'', ''load'', ''impl''} \<subseteq> set (function_names mw_loader)
   \<and> function_names (namespace_members [''mw'', ''loader''] base_loader_d_ts) =
       [''getModuleNames'', ''getScript'', ''using'']
   \<and> map snd (signatures ''using'' (namespace_members [''mw'', ''loader''] base_loader_d_ts)) =
       [TName ''JQuery.Promise'' [TName ''ModuleRequire'' []]]
   \<and> map snd (signatures ''load'' mw_loader) = [TVoid]
   \<and> function_names mw_loader_store =
       [''add'', ''clear'', ''get'', ''init'', ''load'', ''prune'', ''toJSON'', ''set'',
        ''requestUpdate'']
   \<and> concat (map defined_functions documents) =
       [''processParamInfo'', ''indent'', ''getInterfaceName'', ''formatInterface'']
   \<and> set (concat (map defined_functions documents)) \<inter>
       (set (function_names mw_loader)
        \<union> set (function_names (namespace_members [''mw'', ''loader''] base_loader_d_ts))
        \<union> set (function_names mw_loader_store)) = {}"
proof -
  have names: "function_names mw_loader =
      [''addStyleTag'', ''getState'', ''impl'', ''implement'', ''load'', ''register'',
       ''register'', ''state'', ''addLinkTag'', ''addScriptTag'', ''enqueue'', ''resolve'',
       ''work'']"
    by (simp add: mw_loader_eval)
  have base: "function_names (namespace_members [''mw'', ''loader''] base_loader_d_ts) =
       [''getModuleNames'', ''getScript'', ''using'']"
    by (simp add: namespace_members_def base_loader_d_ts_def)
  have using_result:
    "map snd (signatures ''using'' (namespace_members [''mw'', ''loader''] base_loader_d_ts)) =
       [TName ''JQuery.Promise'' [TName ''ModuleRequire'' []]]"
    by (simp add: namespace_members_def base_loader_d_ts_def)
  have load_result: "map snd (signatures ''load'' mw_loader) = [TVoid]"
    by (simp add: mw_loader_eval)
  have store: "function_names mw_loader_store =
       [''add'', ''clear'', ''get'', ''init'', ''load'', ''prune'', ''toJSON'', ''set'',
        ''requestUpdate'']"
    by (simp add: mw_loader_store_eq)
  have defined: "concat (map defined_functions documents) =
       [''processParamInfo'', ''indent'', ''getInterfaceName'', ''formatInterface'']"
    by (simp add: documents_eq api_params_generator_def index_d_ts_def)
  have declared_ok: "{''register'', ''resolve'', ''load'', ''impl''} \<subseteq> set (function_names mw_loader)"
    unfolding names by simp
  have disjoint: "set (concat (map defined_functions documents)) \<inter>
       (set (function_names mw_loader)
        \<union> set (function_names (namespace_members [''mw'', ''loader''] base_loader_d_ts))
        \<union> set (function_names mw_loader_store)) = {}"
    unfolding names base store defined by simp
  from declared_ok base using_result load_result store defined disjoint
  show ?thesis by blast
qed

text \<open>
  C6, as the specification states it, fails: the entry point would refer to every part
  of the declarations. \<open>jquery.color\<close> is a part of the repository (it holds
  \<open>jquery.color/jquery.d.ts\<close>) and no reference of \<open>index.d.ts\<close> names it.
\<close>

theorem C6_part_not_referenced:
  "''jquery.color'' \<in> set parts \<and> ''jquery.color'' \<notin> set (referenced_parts index_d_ts)"
  by code_simp

text \<open>
  C6, amended: the entry point exports the namespace \<open>mw\<close> as the module's export
  (\<open>export = mw\<close>) and as a global namespace (\<open>export as namespace mw\<close>), and refers to
  23 parts, \<open>mediawiki\<close> by path and 22 by name; of the parts whose files are present,
  \<open>jquery.color\<close> and \<open>mediawiki.base\<close> are not among its references.
\<close>

theorem C6_entry_point:
  "export_assignments index_d_ts = [''mw'']
   \<and> namespace_exports index_d_ts = [''mw'']
   \<and> referenced_parts index_d_ts =
       [''mediawiki'', ''jquery'', ''jquery.client'', ''jquery.textSelection'', ''mediawiki.api'',
        ''mediawiki.cldr'', ''mediawiki.cookie'', ''mediawiki.experiments'',
        ''mediawiki.ForeignApi'', ''mediawiki.ForeignApi.core'', ''mediawiki.jqueryMsg'',
        ''mediawiki.language'', ''mediawiki.language.months'',
        ''mediawiki.libs.pluralruleparser'', ''mediawiki.notification'', ''mediawiki.storage'',
        ''mediawiki.String'', ''mediawiki.template'', ''mediawiki.Title'', ''mediawiki.Uri'',
        ''mediawiki.user'', ''mediawiki.util'', ''mediawiki.visibleTimeout'']
   \<and> parts = [''jquery.color'', ''jquery'', ''mediawiki'', ''mediawiki.ForeignApi.core'',
        ''mediawiki.base'', ''mediawiki.api'']
   \<and> filter (\<lambda>p. p \<notin> set (referenced_parts index_d_ts)) parts =
       [''jquery.color'', ''mediawiki.base'']"
proof -
  have "export_assignments index_d_ts = [''mw''] \<and> namespace_exports index_d_ts = [''mw'']"
    by (simp add: index_d_ts_def)
  moreover have refs: "referenced_parts index_d_ts =
       [''mediawiki'', ''jquery'', ''jquery.client'', ''jquery.textSelection'', ''mediawiki.api'',
        ''mediawiki.cldr'', ''mediawiki.cookie'', ''mediawiki.experiments'',
        ''mediawiki.ForeignApi'', ''mediawiki.ForeignApi.core'', ''mediawiki.jqueryMsg'',
        ''mediawiki.language'', ''mediawiki.language.months'',
        ''mediawiki.libs.pluralruleparser'', ''mediawiki.notification'', ''mediawiki.storage'',
        ''mediawiki.String'', ''mediawiki.template'', ''mediawiki.Title'', ''mediawiki.Uri'',
        ''mediawiki.user'', ''mediawiki.util'', ''mediawiki.visibleTimeout'']"
    by (simp add: referenced_parts_def index_d_ts_def directory_def)
  moreover have ps: "parts = [''jquery.color'', ''jquery'', ''mediawiki'',
        ''mediawiki.ForeignApi.core'', ''mediawiki.base'', ''mediawiki.api'']"
    by code_simp
  moreover have "filter (\<lambda>p. p \<notin> set (referenced_parts index_d_ts)) parts =
       [''jquery.color'', ''mediawiki.base'']"
    unfolding refs ps by simp
  ultimately show ?thesis by blast
qed

text \<open>
  C9: the \<open>state\<close> field of a module registry entry (the registry is a record of
  \<open>ModuleRegistryEntry\<close>) is required and admits five values, \<open>error\<close>, \<open>loaded\<close>,
  \<open>missing\<close>, \<open>registered\<close> and \<open>ready\<close>: a strict subset of the seven values of the
  public \<open>ModuleState\<close>. The two values left out are \<open>loading\<close> and \<open>executing\<close>, which
  the result type of \<open>mw.loader.getState\<close> admits.
\<close>

theorem C9_registry_state_strict_subset:
  "const_types ''moduleRegistry'' mw_loader =
       [TName ''Record'' [TString, TName ''ModuleRegistryEntry'' []]]
   \<and> Property ''state'' Required
        (TUnion [TLit ''error'', TLit ''loaded'', TLit ''missing'', TLit ''registered'',
                 TLit ''ready''])
       \<in> set (interface_members ''ModuleRegistryEntry'' mw_loader)
   \<and> registry_entry_state =
       [TUnion [TLit ''error'', TLit ''loaded'', TLit ''missing'', TLit ''registered'',
                TLit ''ready'']]
   \<and> public_module_state = [ModuleState]
   \<and> length (literal_members ModuleState) = 7
   \<and> distinct (literal_members ModuleState)
   \<and> set (concat (map literal_members registry_entry_state)) \<subset> set (literal_members ModuleState)
   \<and> set (literal_members ModuleState) - set (concat (map literal_members registry_entry_state)) =
       {''loading'', ''executing''}
   \<and> map snd (signatures ''getState'' mw_loader) = [TUnion [TName ''ModuleState'' [], TNull]]
   \<and> {''loading'', ''executing''} \<subseteq>
       set (admitted_literals mw_loader (TUnion [TName ''ModuleState'' [], TNull]))"
proof -
  have registry: "const_types ''moduleRegistry'' mw_loader =
       [TName ''Record'' [TString, TName ''ModuleRegistryEntry'' []]]"
    by (simp add: mw_loader_eval)
  have required: "Property ''state'' Required
        (TUnion [TLit ''error'', TLit ''loaded'', TLit ''missing'', TLit ''registered'',
                 TLit ''ready''])
       \<in> set (interface_members ''ModuleRegistryEntry'' mw_loader)"
    by (simp add: mw_loader_eval)
  have seven: "length (literal_members ModuleState) = 7"
    by (simp add: literal_members_ModuleState)
  have dist: "distinct (literal_members ModuleState)"
    by (simp add: literal_members_ModuleState)
  have strict: "set (concat (map literal_members registry_entry_state))
      \<subset> set (literal_members ModuleState)"
    unfolding registry_entry_state_eq literal_members_ModuleState by code_simp
  have rest: "set (literal_members ModuleState) -
      set (concat (map literal_members registry_entry_state)) = {''loading'', ''executing''}"
    unfolding registry_entry_state_eq literal_members_ModuleState by code_simp
  have admits: "{''loading'', ''executing''} \<subseteq>
       set (admitted_literals mw_loader (TUnion [TName ''ModuleState'' [], TNull]))"
    unfolding getState_admits literal_members_ModuleState by simp
  from registry required registry_entry_state_eq public_module_state_eq seven dist strict rest
    getState_result admits
  show ?thesis by blast
qed

text \<open>
  C10: \<open>mw.notify\<close> and \<open>mw.notification.notify\<close> have one signature each, with the
  same parameters (the message, and the optional options); the first returns a promise
  of a \<open>Notification\<close>, the second the \<open>Notification\<close> itself. The second declaration
  of \<open>mw.notify\<close>, in \<open>mediawiki.base/mw.d.ts\<close>, repeats the first.
\<close>

theorem C10_notify_entry_points:
  "map fst mw_notify = map fst mw_notification_notify
   \<and> map fst mw_notify =
       [[(''message'', Required, notify_message), (''options'', Optional, partial_options)]]
   \<and> map snd mw_notify = [TName ''JQuery.Promise'' [TName ''Notification'' []]]
   \<and> map snd mw_notification_notify = [TName ''Notification'' []]
   \<and> map snd mw_notify \<noteq> map snd mw_notification_notify
   \<and> signatures ''notify'' (namespace_members [''mw''] base_mw_d_ts) = mw_notify"
  by (simp add: mw_notify_def mw_notification_notify_def namespace_members_def
      notification_d_ts_def mw_notification_d_ts_def base_mw_d_ts_def)

end
